theory Spec2Isabelle
  imports Main "HOL-Library.AList"
begin

section \<open>Values held in the world state\<close>

text \<open>
  The contract \<^verbatim>\<open>AssetContract\<close> (src/backend/chaincode/src/asset-contract.ts) keeps
  every asset as the JSON text of a JavaScript value under a string key. The world state
  is modelled as a map from keys to the value that \<^verbatim>\<open>JSON.parse\<close> gives for the stored
  text; \<^verbatim>\<open>JSON.stringify\<close> followed by \<^verbatim>\<open>JSON.parse\<close> is the identity on these
  values. A key with no buffer, or with an empty one, is an unmapped key. A number
  \<open>JNum n\<close> is an integer that a double holds: every integer up to \<open>2^53\<close> in
  magnitude, and beyond that the even integers, then the multiples of 4, and so on.
  Adding 1 is the addition of doubles (\<open>js_add_one\<close> below). The loops step their index
  with integer arithmetic, which is what the doubles of the code do as long as the index
  stays at or below \<open>2^53\<close>.
\<close>

datatype json =
    JNull
  | JBool bool
  | JNum int
  | JStr string
  | JArr "json list"
  | JObj "(string \<times> json) list"

type_synonym store = "string \<rightharpoonup> json"

text \<open>
  Every \<^verbatim>\<open>throw\<close> of the contract is a value. \<open>AlreadyExists k\<close> is
  \<^verbatim>\<open>The asset k already exists\<close>, \<open>NotFound k\<close> is \<^verbatim>\<open>The asset k does not exist\<close>,
  \<open>InvalidToken c\<close> is \<^verbatim>\<open>ApprovalID c is invalid\<close> and \<open>InvalidOfficer m\<close> is
  \<^verbatim>\<open>MedicalID m is invalid\<close>. \<open>TypeError\<close> is what JavaScript throws on a property
  access on \<^verbatim>\<open>null\<close>. \<open>Unmodelled\<close> marks a JavaScript coercion that this embedding
  does not follow (arithmetic or loose equality on a value of another type than the
  declared one); no theorem below concludes it.
\<close>

datatype error =
    AlreadyExists string
  | NotFound string
  | InvalidToken string
  | InvalidOfficer string
  | TypeError
  | Unmodelled

text \<open>
  A transaction function takes the world state and either throws or returns its value
  with the world state it leaves. A transaction that throws is not committed, so an
  error carries no state. Writes are applied in the order the function makes them; no
  function of the contract reads a key after it has written it, so this is also what the
  ledger's write set gives.
\<close>

type_synonym 'a tx = "store \<Rightarrow> error + 'a \<times> store"

text \<open>
  The ledger runtime's side of a call: the state after a transaction is the state it
  returned, and the state before it when it threw.
\<close>

fun commit :: "store \<Rightarrow> error + 'a \<times> store \<Rightarrow> store" where
  "commit s (Inl e) = s"
| "commit s (Inr (r, s')) = s'"

section \<open>JavaScript operations the contract uses\<close>

text \<open>
  \<^verbatim>\<open>v.f\<close>: \<open>None\<close> is \<^verbatim>\<open>undefined\<close>. The property names of the contract
  (\<^verbatim>\<open>patientCtr\<close>, \<^verbatim>\<open>approveCtr\<close>, \<^verbatim>\<open>approvalCtr\<close>, \<^verbatim>\<open>num_positives\<close>,
  \<^verbatim>\<open>approvalID\<close>, \<^verbatim>\<open>patientID\<close>, \<^verbatim>\<open>dailyKeys\<close>) are undefined on numbers, strings,
  booleans and arrays.
\<close>

fun get_prop :: "json \<Rightarrow> string \<Rightarrow> error + json option" where
  "get_prop JNull f = Inl TypeError"
| "get_prop (JObj fs) f = Inr (map_of fs f)"
| "get_prop v f = Inr None"

text \<open>
  \<^verbatim>\<open>v.f = x\<close> as the stored text shows it afterwards. Class bodies are strict code: the
  assignment throws on a primitive. A named property of an array is not serialised.
\<close>

fun set_prop :: "json \<Rightarrow> string \<Rightarrow> json \<Rightarrow> error + json" where
  "set_prop (JObj fs) f x = Inr (JObj (AList.update f x fs))"
| "set_prop (JArr xs) f x = Inr (JArr xs)"
| "set_prop v f x = Inl TypeError"

text \<open>\<^verbatim>\<open>v == null\<close>: true of \<^verbatim>\<open>null\<close> and \<^verbatim>\<open>undefined\<close> only.\<close>

fun js_eq_null :: "json option \<Rightarrow> bool" where
  "js_eq_null None = True"
| "js_eq_null (Some JNull) = True"
| "js_eq_null (Some v) = False"

text \<open>
  \<^verbatim>\<open>v == str\<close> for a string \<open>str\<close>: strings compare by content, \<^verbatim>\<open>null\<close> and
  \<^verbatim>\<open>undefined\<close> equal no string; a number, boolean, array or object would be coerced.
\<close>

fun js_eq_string :: "json option \<Rightarrow> string \<Rightarrow> error + bool" where
  "js_eq_string None str = Inr False"
| "js_eq_string (Some JNull) str = Inr False"
| "js_eq_string (Some (JStr x)) str = Inr (x = str)"
| "js_eq_string (Some v) str = Inl Unmodelled"

text \<open>The operand of \<^verbatim>\<open>v + 1\<close>: a number adds; any other value would be coerced.\<close>

fun js_number :: "json option \<Rightarrow> error + int" where
  "js_number (Some (JNum n)) = Inr n"
| "js_number v = Inl Unmodelled"

text \<open>
  \<^verbatim>\<open>n + 1\<close> on a number: the sum as a double, that is the integer \<open>n + 1\<close> rounded to the
  nearest double, a tie going to the even significand. From \<open>-2^53\<close> to \<open>2^53 - 1\<close> the
  sum is exact. From there to \<open>2^54\<close> in magnitude the doubles are the even integers and
  \<open>n + 1\<close> lies midway between \<open>n\<close> and \<open>n + 2\<close>: it rounds to the multiple of 4, so
  \<open>2^53 + 1\<close> is \<open>2^53\<close>. Beyond, the doubles are at least 4 apart and the sum is \<open>n\<close>.
\<close>

definition js_add_one :: "int \<Rightarrow> int" where
  "js_add_one n =
     (if - (2 ^ 53) \<le> n \<and> n < 2 ^ 53 then n + 1
      else if - (2 ^ 54) \<le> n \<and> n \<le> 2 ^ 54 then (if n mod 4 = 0 then n else n + 2)
      else n)"

text \<open>
  The value a counting loop compares its index with (\<^verbatim>\<open>apNum > 0\<close> from
  \<^verbatim>\<open>apNum = v\<close>, \<^verbatim>\<open>i <= v\<close> from \<^verbatim>\<open>i = 1\<close>). \<^verbatim>\<open>undefined\<close> converts to NaN,
  which compares false with every number, and \<^verbatim>\<open>null\<close> converts to 0: with either the
  loop runs no iteration, as with the number 0.
\<close>

fun loop_limit :: "json option \<Rightarrow> error + int" where
  "loop_limit (Some (JNum n)) = Inr n"
| "loop_limit None = Inr 0"
| "loop_limit (Some JNull) = Inr 0"
| "loop_limit (Some v) = Inl Unmodelled"

text \<open>
  \<^verbatim>\<open>n.toString()\<close> of an integer: its decimal digits, after a minus sign when negative
  (JavaScript prints these digits for every integer below \<open>10^21\<close> in magnitude).
\<close>

definition digit_char :: "nat \<Rightarrow> char" where
  "digit_char d = ''0123456789'' ! d"

fun digits :: "nat \<Rightarrow> string" where
  "digits n = (if n < 10 then [digit_char n] else digits (n div 10) @ [digit_char (n mod 10)])"

definition toString :: "int \<Rightarrow> string" where
  "toString n = (if n < 0 then CHR ''-'' # digits (nat (- n)) else digits (nat n))"

section \<open>The asset types\<close>

text \<open>
  Modelled from the spec: the declarations of \<^verbatim>\<open>./asset\<close> (\<^verbatim>\<open>Patient\<close>,
  \<^verbatim>\<open>HealthOfficer\<close>, \<^verbatim>\<open>Approval\<close>, \<^verbatim>\<open>Meta\<close>, \<^verbatim>\<open>DailyKey\<close>) are not under src/.
  The fields are the ones of the spec's data model, under the names the contract reads
  them by. Only the two argument types are records (the field names carry the type as a
  prefix, since one name cannot be a field of two records); what the contract reads back
  from the world state is untyped (\<^verbatim>\<open>any\<close>, or a cast that checks nothing) and stays a
  \<open>json\<close> value. A daily key is never inspected by the contract and stays a \<open>json\<close>
  value as well.
\<close>

record Patient =
  patient_approvalID :: string
  patient_medID :: string
  patient_dailyKeys :: "json list"

record HealthOfficer =
  officer_medID :: string
  officer_approveCtr :: int

text \<open>\<^verbatim>\<open>JSON.stringify\<close> of the two argument objects, read back.\<close>

definition Patient_json :: "Patient \<Rightarrow> json" where
  "Patient_json patientObj =
     JObj [(''approvalID'', JStr (patient_approvalID patientObj)),
           (''medID'', JStr (patient_medID patientObj)),
           (''dailyKeys'', JArr (patient_dailyKeys patientObj))]"

definition HealthOfficer_json :: "HealthOfficer \<Rightarrow> json" where
  "HealthOfficer_json medObj =
     JObj [(''medID'', JStr (officer_medID medObj)),
           (''approveCtr'', JNum (officer_approveCtr medObj))]"

section \<open>Storage primitives\<close>

definition assetExists :: "string \<Rightarrow> bool tx" where
  "assetExists assetId s = Inr (s assetId \<noteq> None, s)"

definition createAsset :: "string \<Rightarrow> json \<Rightarrow> unit tx" where
  "createAsset assetId val s =
     (case assetExists assetId s of
        Inl e \<Rightarrow> Inl e
      | Inr (ex, s1) \<Rightarrow>
          if ex then Inl (AlreadyExists assetId) else Inr ((), s1(assetId \<mapsto> val)))"

definition readAsset :: "string \<Rightarrow> json tx" where
  "readAsset assetId s =
     (case assetExists assetId s of
        Inl e \<Rightarrow> Inl e
      | Inr (ex, s1) \<Rightarrow>
          if \<not> ex then Inl (NotFound assetId)
          else (case s1 assetId of
                  None \<Rightarrow> Inl (NotFound assetId)
                | Some asset \<Rightarrow> Inr (asset, s1)))"

definition updateAsset :: "string \<Rightarrow> json \<Rightarrow> unit tx" where
  "updateAsset assetId newValue s =
     (case assetExists assetId s of
        Inl e \<Rightarrow> Inl e
      | Inr (ex, s1) \<Rightarrow>
          if \<not> ex then Inl (NotFound assetId) else Inr ((), s1(assetId \<mapsto> newValue)))"

definition deleteAsset :: "string \<Rightarrow> unit tx" where
  "deleteAsset assetId s =
     (case assetExists assetId s of
        Inl e \<Rightarrow> Inl e
      | Inr (ex, s1) \<Rightarrow>
          if \<not> ex then Inl (NotFound assetId) else Inr ((), s1(assetId := None)))"

section \<open>Protocol operations\<close>

subsection \<open>addPatient\<close>

text \<open>The test of the \<^verbatim>\<open>if\<close> in the loop of \<^verbatim>\<open>addPatient\<close>:
  \<^verbatim>\<open>apObj.patientID == null && apObj.approvalID == patientObj.approvalID\<close>.\<close>

definition addPatient_test :: "json \<Rightarrow> Patient \<Rightarrow> error + bool" where
  "addPatient_test apObj patientObj =
     (case get_prop apObj ''patientID'' of
        Inl e \<Rightarrow> Inl e
      | Inr pid \<Rightarrow>
          if js_eq_null pid then
            (case get_prop apObj ''approvalID'' of
               Inl e \<Rightarrow> Inl e
             | Inr aid \<Rightarrow> js_eq_string aid (patient_approvalID patientObj))
          else Inr False)"

text \<open>The body of that \<^verbatim>\<open>if\<close>, up to its \<^verbatim>\<open>break\<close>.\<close>

definition addPatient_found ::
  "Patient \<Rightarrow> json \<Rightarrow> int \<Rightarrow> string \<Rightarrow> string \<Rightarrow> json \<Rightarrow> unit tx" where
  "addPatient_found patientObj currMeta lastPatientID newPKey apKey apObj s =
     (case set_prop apObj ''patientID'' (JStr newPKey) of
        Inl e \<Rightarrow> Inl e
      | Inr apObj' \<Rightarrow>
     (case updateAsset apKey apObj' s of
        Inl e \<Rightarrow> Inl e
      | Inr (u1, s1) \<Rightarrow>
     (case createAsset newPKey (Patient_json patientObj) s1 of
        Inl e \<Rightarrow> Inl e
      | Inr (u2, s2) \<Rightarrow>
     (case set_prop currMeta ''patientCtr'' (JNum (js_add_one lastPatientID)) of
        Inl e \<Rightarrow> Inl e
      | Inr currMeta' \<Rightarrow> updateAsset ''meta'' currMeta' s2))))"

text \<open>\<^verbatim>\<open>for (let apNum = healthOfficial.approveCtr; apNum > 0; apNum--)\<close>.\<close>

function addPatient_loop :: "Patient \<Rightarrow> json \<Rightarrow> int \<Rightarrow> string \<Rightarrow> int \<Rightarrow> unit tx" where
  "addPatient_loop patientObj currMeta lastPatientID newPKey apNum s =
     (if apNum > 0 then
        (case readAsset (''m'' @ patient_medID patientObj @ '':'' @ toString apNum) s of
           Inl e \<Rightarrow> Inl e
         | Inr (apObj, s1) \<Rightarrow>
             (case addPatient_test apObj patientObj of
                Inl e \<Rightarrow> Inl e
              | Inr found \<Rightarrow>
                  if found then
                    addPatient_found patientObj currMeta lastPatientID newPKey
                      (''m'' @ patient_medID patientObj @ '':'' @ toString apNum) apObj s1
                  else addPatient_loop patientObj currMeta lastPatientID newPKey (apNum - 1) s1))
      else Inr ((), s))"
  by pat_completeness auto
termination
  by (relation "measure (\<lambda>(patientObj, currMeta, lastPatientID, newPKey, apNum, s). nat apNum)")
    auto

definition addPatient :: "Patient \<Rightarrow> unit tx" where
  "addPatient patientObj s =
     (case readAsset ''meta'' s of
        Inl e \<Rightarrow> Inl e
      | Inr (currMeta, s1) \<Rightarrow>
     (case get_prop currMeta ''patientCtr'' of
        Inl e \<Rightarrow> Inl e
      | Inr ctr \<Rightarrow>
     (case js_number ctr of
        Inl e \<Rightarrow> Inl e
      | Inr lastPatientID \<Rightarrow>
     (case readAsset (patient_medID patientObj) s1 of
        Inl e \<Rightarrow> Inl e
      | Inr (healthOfficial, s2) \<Rightarrow>
     (case get_prop healthOfficial ''approveCtr'' of
        Inl e \<Rightarrow> Inl e
      | Inr approveCtr \<Rightarrow>
     (case loop_limit approveCtr of
        Inl e \<Rightarrow> Inl e
      | Inr apNum \<Rightarrow>
          addPatient_loop patientObj currMeta lastPatientID
            (''p'' @ toString (js_add_one lastPatientID)) apNum s2))))))"

subsection \<open>addHealthOfficer\<close>

definition addHealthOfficer :: "HealthOfficer \<Rightarrow> unit tx" where
  "addHealthOfficer medObj s =
     (case assetExists (officer_medID medObj) s of
        Inl e \<Rightarrow> Inl e
      | Inr (registered, s1) \<Rightarrow>
          if \<not> registered then
            createAsset (officer_medID medObj) (HealthOfficer_json medObj) s1
          else Inr ((), s1))"

subsection \<open>addPatientApprovalRecord\<close>

text \<open>
  The assignment \<^verbatim>\<open>official.approveCtr = apNum\<close> changes the object in memory
  (\<open>official'\<close>); the function writes only the approval.
\<close>

definition addPatientApprovalRecord :: "string \<Rightarrow> string \<Rightarrow> unit tx" where
  "addPatientApprovalRecord medID newApprovalID s =
     (case assetExists medID s of
        Inl e \<Rightarrow> Inl e
      | Inr (officialExists, s1) \<Rightarrow>
          if \<not> officialExists then Inr ((), s1)
          else
     (case readAsset medID s1 of
        Inl e \<Rightarrow> Inl e
      | Inr (official, s2) \<Rightarrow>
     (case get_prop official ''approveCtr'' of
        Inl e \<Rightarrow> Inl e
      | Inr approveCtr \<Rightarrow>
     (case js_number approveCtr of
        Inl e \<Rightarrow> Inl e
      | Inr ctr \<Rightarrow>
     (case set_prop official ''approveCtr'' (JNum (js_add_one ctr)) of
        Inl e \<Rightarrow> Inl e
      | Inr official' \<Rightarrow>
          createAsset (''m'' @ medID @ '':'' @ toString (js_add_one ctr))
            (JObj [(''approvalID'', JStr newApprovalID), (''patientID'', JNull)]) s2)))))"

subsection \<open>getMedProfile\<close>

text \<open>The caller's identity (\<^verbatim>\<open>cid.getID()\<close>) is read and not used.\<close>

definition getMedProfile :: "string \<Rightarrow> json tx" where
  "getMedProfile medID s =
     (case readAsset (''m'' @ medID) s of
        Inl e \<Rightarrow> Inl e
      | Inr (medObj, s1) \<Rightarrow>
          if medObj \<noteq> JNull then Inr (medObj, s1) else Inr (JNull, s1))"

subsection \<open>validatePatient\<close>

text \<open>The test of the \<^verbatim>\<open>if\<close> in the loop of \<^verbatim>\<open>validatePatient\<close>:
  \<^verbatim>\<open>approvalObj!=null && approvalObj.approvalID==checkID && approvalObj.patientID==null\<close>.\<close>

definition validatePatient_test :: "json \<Rightarrow> string \<Rightarrow> error + bool" where
  "validatePatient_test approvalObj checkID =
     (if approvalObj \<noteq> JNull then
        (case get_prop approvalObj ''approvalID'' of
           Inl e \<Rightarrow> Inl e
         | Inr aid \<Rightarrow>
        (case js_eq_string aid checkID of
           Inl e \<Rightarrow> Inl e
         | Inr same \<Rightarrow>
             if same then
               (case get_prop approvalObj ''patientID'' of
                  Inl e \<Rightarrow> Inl e
                | Inr pid \<Rightarrow> Inr (js_eq_null pid))
             else Inr False))
      else Inr False)"

text \<open>\<^verbatim>\<open>for (let i = 1; i <= medObj.approvalCtr; i++)\<close>, then the \<^verbatim>\<open>throw\<close> after it.\<close>

function validatePatient_loop :: "string \<Rightarrow> string \<Rightarrow> int \<Rightarrow> int \<Rightarrow> string tx" where
  "validatePatient_loop medKey checkID approvalCtr i s =
     (if i \<le> approvalCtr then
        (case readAsset (medKey @ '':'' @ toString i) s of
           Inl e \<Rightarrow> Inl e
         | Inr (approvalObj, s1) \<Rightarrow>
             (case validatePatient_test approvalObj checkID of
                Inl e \<Rightarrow> Inl e
              | Inr valid \<Rightarrow>
                  if valid then Inr (''Validate Patient Successful'', s1)
                  else validatePatient_loop medKey checkID approvalCtr (i + 1) s1))
      else Inl (InvalidToken checkID))"
  by pat_completeness auto
termination
  by (relation "measure (\<lambda>(medKey, checkID, approvalCtr, i, s). nat (approvalCtr + 1 - i))")
    auto

definition validatePatient :: "string \<Rightarrow> string \<Rightarrow> string tx" where
  "validatePatient medID checkID s =
     (case readAsset (''m'' @ medID) s of
        Inl e \<Rightarrow> Inl e
      | Inr (medObj, s1) \<Rightarrow>
          if medObj \<noteq> JNull then
            (case get_prop medObj ''approvalCtr'' of
               Inl e \<Rightarrow> Inl e
             | Inr approvalCtr \<Rightarrow>
            (case loop_limit approvalCtr of
               Inl e \<Rightarrow> Inl e
             | Inr n \<Rightarrow> validatePatient_loop (''m'' @ medID) checkID n 1 s1))
          else Inl (InvalidOfficer medID))"

subsection \<open>getKeys\<close>

text \<open>
  \<^verbatim>\<open>for (let i=1;i<=metaObj.num_positives;i++)\<close>. \<open>allResults\<close> holds what was
  pushed: one entry per patient read, \<open>None\<close> for \<^verbatim>\<open>undefined\<close>.
\<close>

function getKeys_loop :: "int \<Rightarrow> int \<Rightarrow> json option list \<Rightarrow> (json option list) tx" where
  "getKeys_loop num_positives i allResults s =
     (if i \<le> num_positives then
        (case readAsset (''p'' @ toString i) s of
           Inl e \<Rightarrow> Inl e
         | Inr (patientObj, s1) \<Rightarrow>
             if patientObj \<noteq> JNull then
               (case get_prop patientObj ''dailyKeys'' of
                  Inl e \<Rightarrow> Inl e
                | Inr keys \<Rightarrow> getKeys_loop num_positives (i + 1) (allResults @ [keys]) s1)
             else getKeys_loop num_positives (i + 1) allResults s1)
      else Inr (allResults, s))"
  by pat_completeness auto
termination
  by (relation "measure (\<lambda>(num_positives, i, allResults, s). nat (num_positives + 1 - i))")
    auto

text \<open>
  \<^verbatim>\<open>JSON.stringify\<close> of an array, read back: \<^verbatim>\<open>undefined\<close> is written \<^verbatim>\<open>null\<close>.
  \<^verbatim>\<open>getKeys\<close> returns the text of \<open>allResults\<close>; the model returns the array the text
  denotes.
\<close>

definition stringify_array :: "json option list \<Rightarrow> json" where
  "stringify_array xs = JArr (map (\<lambda>x. case x of None \<Rightarrow> JNull | Some v \<Rightarrow> v) xs)"

definition getKeys :: "json tx" where
  "getKeys s =
     (case readAsset ''meta'' s of
        Inl e \<Rightarrow> Inl e
      | Inr (metaObj, s1) \<Rightarrow>
     (case get_prop metaObj ''num_positives'' of
        Inl e \<Rightarrow> Inl e
      | Inr num_positives \<Rightarrow>
     (case loop_limit num_positives of
        Inl e \<Rightarrow> Inl e
      | Inr n \<Rightarrow>
     (case getKeys_loop n 1 [] s1 of
        Inl e \<Rightarrow> Inl e
      | Inr (allResults, s2) \<Rightarrow> Inr (stringify_array allResults, s2)))))"

section \<open>Sequences of calls\<close>

text \<open>
  \<^verbatim>\<open>addPatientApprovalRecord\<close> called for one officer with each token of a list in turn,
  every call committed or rejected by the ledger before the next: the state at the end.
\<close>

fun issueApprovalTokens :: "string \<Rightarrow> string list \<Rightarrow> store \<Rightarrow> store" where
  "issueApprovalTokens medID [] s = s"
| "issueApprovalTokens medID (tok # toks) s =
     issueApprovalTokens medID toks (commit s (addPatientApprovalRecord medID tok s))"

section \<open>Keys as the contract builds them\<close>

abbreviation approval_key :: "string \<Rightarrow> int \<Rightarrow> string" where
  "approval_key medID apNum \<equiv> ''m'' @ medID @ '':'' @ toString apNum"

abbreviation patient_key :: "int \<Rightarrow> string" where
  "patient_key n \<equiv> ''p'' @ toString n"

section \<open>What the loop of getKeys pushes, and what the specification asks for\<close>

text \<open>
  \<open>pushed_entry s i\<close> is what one iteration of the loop of \<^verbatim>\<open>getKeys\<close> pushes for
  patient number \<open>i\<close> on ledger \<open>s\<close>: the \<^verbatim>\<open>dailyKeys\<close> property of the record, as one
  entry, and nothing for a stored \<^verbatim>\<open>null\<close>.
\<close>

definition pushed_entry :: "store \<Rightarrow> int \<Rightarrow> json option list" where
  "pushed_entry s i =
     (case s (patient_key i) of
        None \<Rightarrow> []
      | Some patientObj \<Rightarrow>
          if patientObj \<noteq> JNull then
            (case get_prop patientObj ''dailyKeys'' of Inl e \<Rightarrow> [] | Inr keys \<Rightarrow> [keys])
          else [])"

text \<open>
  The specification's words for \<open>aggregateKeys\<close>, to compare \<^verbatim>\<open>getKeys\<close> with: the
  concatenation, in patient-number order \<open>1..patientCounter\<close>, of every created patient's
  \<open>dailyKeys\<close>, with \<open>patientCounter\<close> read from Meta.
\<close>

definition spec_aggregateKeys :: "store \<Rightarrow> json" where
  "spec_aggregateKeys s =
     (case s ''meta'' of
        Some (JObj ms) \<Rightarrow>
          (case map_of ms ''patientCtr'' of
             Some (JNum patientCounter) \<Rightarrow>
               JArr (concat (map (\<lambda>patientNumber.
                  case s (patient_key patientNumber) of
                    Some (JObj fs) \<Rightarrow>
                      (case map_of fs ''dailyKeys'' of Some (JArr dailyKeys) \<Rightarrow> dailyKeys | _ \<Rightarrow> [])
                  | _ \<Rightarrow> []) [1..patientCounter]))
           | _ \<Rightarrow> JArr [])
      | _ \<Rightarrow> JArr [])"

section \<open>Example ledgers\<close>

definition example_key :: json where
  "example_key = JObj [(''hexkey'', JStr ''ab12''), (''i'', JNum 100)]"

definition example_patient :: Patient where
  "example_patient =
     \<lparr>patient_approvalID = ''A1'', patient_medID = ''m1'', patient_dailyKeys = [example_key]\<rparr>"

definition example_approval :: "string \<Rightarrow> json \<Rightarrow> json" where
  "example_approval tok redeemedBy = JObj [(''approvalID'', JStr tok), (''patientID'', redeemedBy)]"

definition example_officer :: "int \<Rightarrow> json" where
  "example_officer n = JObj [(''medID'', JStr ''m1''), (''approveCtr'', JNum n)]"

definition example_meta :: "int \<Rightarrow> json" where
  "example_meta n = JObj [(''patientCtr'', JNum n)]"

definition ledger_three :: store where
  "ledger_three =
     [''meta'' \<mapsto> example_meta 0,
      ''m1'' \<mapsto> example_officer 3,
      ''mm1:1'' \<mapsto> example_approval ''A1'' JNull,
      ''mm1:2'' \<mapsto> example_approval ''A1'' JNull,
      ''mm1:3'' \<mapsto> example_approval ''B7'' JNull]"

definition ledger_gap :: store where
  "ledger_gap =
     [''meta'' \<mapsto> example_meta 0,
      ''m1'' \<mapsto> example_officer 2,
      ''mm1:1'' \<mapsto> example_approval ''A1'' JNull]"

definition ledger_taken :: store where
  "ledger_taken =
     [''meta'' \<mapsto> example_meta 0,
      ''m1'' \<mapsto> example_officer 1,
      ''mm1:1'' \<mapsto> example_approval ''A1'' JNull,
      ''p1'' \<mapsto> Patient_json example_patient]"

definition ledger_rounding :: store where
  "ledger_rounding =
     [''meta'' \<mapsto> example_meta 9007199254740992,
      ''m1'' \<mapsto> example_officer 1,
      ''mm1:1'' \<mapsto> example_approval ''A1'' JNull]"

definition ledger_registered :: store where
  "ledger_registered =
     commit Map.empty
       (addHealthOfficer \<lparr>officer_medID = ''m1'', officer_approveCtr = 0\<rparr> Map.empty)"

definition ledger_issued :: store where
  "ledger_issued = ledger_registered(''mm1:1'' \<mapsto> example_approval ''A1'' JNull)"

definition example_key2 :: json where
  "example_key2 = JObj [(''hexkey'', JStr ''cd34''), (''i'', JNum 101)]"

definition example_key3 :: json where
  "example_key3 = JObj [(''hexkey'', JStr ''ef56''), (''i'', JNum 102)]"

definition ledger_counted :: store where
  "ledger_counted =
     [''meta'' \<mapsto> example_meta 1,
      ''p1'' \<mapsto> Patient_json example_patient]"

definition ledger_keys :: store where
  "ledger_keys =
     [''meta'' \<mapsto> JObj [(''patientCtr'', JNum 2), (''num_positives'', JNum 2)],
      ''p1'' \<mapsto> Patient_json example_patient,
      ''p2'' \<mapsto> Patient_json
         \<lparr>patient_approvalID = ''B7'', patient_medID = ''m1'',
          patient_dailyKeys = [example_key2, example_key3]\<rparr>]"

definition ledger_spent :: store where
  "ledger_spent =
     [''meta'' \<mapsto> example_meta 1,
      ''m1'' \<mapsto> example_officer 2,
      ''mm1:1'' \<mapsto> example_approval ''A1'' (JStr ''p1''),
      ''mm1:2'' \<mapsto> example_approval ''B7'' JNull,
      ''p1'' \<mapsto> Patient_json example_patient]"

definition ledger_bare :: store where
  "ledger_bare = [''meta'' \<mapsto> example_meta 0]"

definition ledger_unprefixed :: store where
  "ledger_unprefixed = [''1'' \<mapsto> JObj [(''medID'', JStr ''1''), (''approveCtr'', JNum 0)]]"

definition ledger_validate :: store where
  "ledger_validate =
     [''m1'' \<mapsto> example_officer 1,
      ''m1:1'' \<mapsto> example_approval ''A1'' JNull]"

definition ledger_approvalCtr :: store where
  "ledger_approvalCtr =
     [''m1'' \<mapsto> JObj [(''medID'', JStr ''m1''), (''approvalCtr'', JNum 1)],
      ''m1:1'' \<mapsto> example_approval ''A1'' JNull]"

definition ledger_scenario :: store where
  "ledger_scenario =
     commit (ledger_bare(''m1'' \<mapsto> example_officer 0))
       (addPatientApprovalRecord ''m1'' ''A1'' (ledger_bare(''m1'' \<mapsto> example_officer 0)))"

definition ledger_both_counters :: store where
  "ledger_both_counters =
     [''m1'' \<mapsto> JObj [(''medID'', JStr ''m1''), (''approveCtr'', JNum 0),
                        (''approvalCtr'', JNum 1)]]"

section \<open>Decimal numerals are distinct\<close>

lemma digits_not_Nil: "digits n \<noteq> []"
  by (subst digits.simps) simp

declare digits.simps [simp del]
declare addPatient_loop.simps [simp del]
declare validatePatient_loop.simps [simp del]
declare getKeys_loop.simps [simp del]

lemma digit_char_inj: "a < 10 \<Longrightarrow> b < 10 \<Longrightarrow> digit_char a = digit_char b \<Longrightarrow> a = b"
  using nth_eq_iff_index_eq [of "''0123456789''" a b] by (simp add: digit_char_def)

lemma digit_char_not_minus: "d < 10 \<Longrightarrow> digit_char d \<noteq> CHR ''-''"
proof -
  assume "d < 10"
  then have "digit_char d \<in> set ''0123456789''"
    unfolding digit_char_def by (intro nth_mem) simp
  then show ?thesis by auto
qed

lemma digits_inj: "digits n = digits m \<Longrightarrow> n = m"
proof (induction n arbitrary: m rule: digits.induct)
  case (1 n)
  show ?case
  proof (cases "n < 10")
    case True
    show ?thesis
    proof (cases "m < 10")
      case mt: True
      from "1.prems" True mt have "digit_char n = digit_char m"
        by (simp add: digits.simps [of n] digits.simps [of m])
      with True mt show ?thesis by (rule digit_char_inj)
    next
      case mf: False
      from "1.prems" True mf have "digits (m div 10) = []"
        by (simp add: digits.simps [of n] digits.simps [of m])
      then show ?thesis by (simp add: digits_not_Nil)
    qed
  next
    case False
    show ?thesis
    proof (cases "m < 10")
      case mt: True
      from "1.prems" False mt have "digits (n div 10) = []"
        by (simp add: digits.simps [of n] digits.simps [of m])
      then show ?thesis by (simp add: digits_not_Nil)
    next
      case mf: False
      from "1.prems" False mf
      have eq: "digits (n div 10) = digits (m div 10)"
        and last: "digit_char (n mod 10) = digit_char (m mod 10)"
        by (simp_all add: digits.simps [of n] digits.simps [of m])
      from "1.IH" [OF False eq] have "n div 10 = m div 10" .
      moreover from last have "n mod 10 = m mod 10"
        by (intro digit_char_inj) simp_all
      ultimately show ?thesis by (metis div_mult_mod_eq)
    qed
  qed
qed

lemma hd_digits_not_minus: "hd (digits n) \<noteq> CHR ''-''"
proof (induction n rule: digits.induct)
  case (1 n)
  show ?case
  proof (cases "n < 10")
    case True
    then show ?thesis by (simp add: digits.simps [of n] digit_char_not_minus)
  next
    case False
    with "1.IH" show ?thesis
      by (simp add: digits.simps [of n] digits_not_Nil)
  qed
qed

lemma toString_inj: "toString a = toString b \<Longrightarrow> a = b"
proof -
  assume eq: "toString a = toString b"
  have neq: "CHR ''-'' # xs \<noteq> digits n" for xs n
    using hd_digits_not_minus [of n] by (metis list.sel(1))
  show ?thesis
  proof (cases "a < 0"; cases "b < 0")
    assume "a < 0" "b < 0"
    with eq have "nat (- a) = nat (- b)" by (simp add: toString_def digits_inj)
    with \<open>a < 0\<close> \<open>b < 0\<close> show ?thesis by simp
  next
    assume "a < 0" "\<not> b < 0"
    with eq neq show ?thesis by (simp add: toString_def)
  next
    assume "\<not> a < 0" "b < 0"
    with eq neq [of "digits (nat (- b))" "nat a"] show ?thesis by (simp add: toString_def)
  next
    assume "\<not> a < 0" "\<not> b < 0"
    with eq have "nat a = nat b" by (simp add: toString_def digits_inj)
    with \<open>\<not> a < 0\<close> \<open>\<not> b < 0\<close> show ?thesis by simp
  qed
qed

lemma toString_eq_iff [simp]: "toString a = toString b \<longleftrightarrow> a = b"
  by (auto dest: toString_inj)

lemma approval_key_not_meta: "''m'' @ medID @ '':'' @ x \<noteq> ''meta''"
proof
  assume "''m'' @ medID @ '':'' @ x = ''meta''"
  then have "medID @ '':'' @ x = ''eta''" by simp
  then have "CHR '':'' \<in> set ''eta''" by (metis in_set_conv_decomp append_Cons append_Nil)
  then show False by simp
qed

section \<open>The storage primitives on a present and on an absent key\<close>

lemma readAsset_Some: "s k = Some v \<Longrightarrow> readAsset k s = Inr (v, s)"
  by (simp add: readAsset_def assetExists_def)

lemma readAsset_None: "s k = None \<Longrightarrow> readAsset k s = Inl (NotFound k)"
  by (simp add: readAsset_def assetExists_def)

lemma createAsset_None: "s k = None \<Longrightarrow> createAsset k v s = Inr ((), s(k \<mapsto> v))"
  by (simp add: createAsset_def assetExists_def)

lemma createAsset_Some: "s k = Some w \<Longrightarrow> createAsset k v s = Inl (AlreadyExists k)"
  by (simp add: createAsset_def assetExists_def)

lemma updateAsset_Some: "s k = Some w \<Longrightarrow> updateAsset k v s = Inr ((), s(k \<mapsto> v))"
  by (simp add: updateAsset_def assetExists_def)

lemma updateAsset_None: "s k = None \<Longrightarrow> updateAsset k v s = Inl (NotFound k)"
  by (simp add: updateAsset_def assetExists_def)

section \<open>Redeeming an approval: addPatient\<close>

lemma addPatient_test_TrueD:
  assumes "addPatient_test apObj p = Inr True"
  shows "\<exists>fs. apObj = JObj fs \<and> js_eq_null (map_of fs ''patientID'')
           \<and> map_of fs ''approvalID'' = Some (JStr (patient_approvalID p))"
proof (cases apObj)
  case (JObj fs)
  with assms have "js_eq_null (map_of fs ''patientID'')"
    and eq: "js_eq_string (map_of fs ''approvalID'') (patient_approvalID p) = Inr True"
    by (simp_all add: addPatient_test_def split: if_splits)
  from eq have "map_of fs ''approvalID'' = Some (JStr (patient_approvalID p))"
    by (cases "(map_of fs ''approvalID'', patient_approvalID p)" rule: js_eq_string.cases) simp_all
  with JObj \<open>js_eq_null (map_of fs ''patientID'')\<close> show ?thesis by simp
qed (use assms in \<open>simp_all add: addPatient_test_def\<close>)

text \<open>The test on a record whose \<^verbatim>\<open>approvalID\<close> is a string: unredeemed and same token.\<close>

lemma addPatient_test_approval:
  assumes "map_of fs ''approvalID'' = Some (JStr tok)"
  shows "addPatient_test (JObj fs) p
         = Inr (js_eq_null (map_of fs ''patientID'') \<and> tok = patient_approvalID p)"
  using assms by (simp add: addPatient_test_def)

lemma get_prop_SomeD:
  assumes "get_prop v f = Inr (Some x)"
  shows "\<exists>fs. v = JObj fs \<and> map_of fs f = Some x"
  using assms by (cases v) simp_all

lemma map_of_update: "map_of (AList.update k v al) k = Some v"
  by (simp add: update_conv')

lemma addPatient_loop_no_match:
  assumes "\<forall>j. 0 < j \<and> j \<le> apNum \<longrightarrow>
             (\<exists>a. s (approval_key (patient_medID p) j) = Some a \<and> addPatient_test a p = Inr False)"
  shows "addPatient_loop p currMeta n newPKey apNum s = Inr ((), s)"
  using assms
proof (induction "nat apNum" arbitrary: apNum)
  case 0
  then show ?case by (simp add: addPatient_loop.simps)
next
  case (Suc m)
  then have pos: "0 < apNum" and m: "m = nat (apNum - 1)" by simp_all
  from Suc.prems pos obtain a
    where a: "s (approval_key (patient_medID p) apNum) = Some a" "addPatient_test a p = Inr False"
    by blast
  from Suc.prems have "\<forall>j. 0 < j \<and> j \<le> apNum - 1 \<longrightarrow>
      (\<exists>a. s (approval_key (patient_medID p) j) = Some a \<and> addPatient_test a p = Inr False)"
    by simp
  from Suc.hyps(1) [OF m this]
  have "addPatient_loop p currMeta n newPKey (apNum - 1) s = Inr ((), s)" .
  with pos a show ?case
    by (simp add: addPatient_loop.simps [of _ _ _ _ apNum] readAsset_Some)
qed

lemma addPatient_loop_highest:
  assumes "0 < k" and "k \<le> apNum"
    and "s (approval_key (patient_medID p) k) = Some apObj"
    and "addPatient_test apObj p = Inr True"
    and "\<forall>j. k < j \<and> j \<le> apNum \<longrightarrow>
           (\<exists>a. s (approval_key (patient_medID p) j) = Some a \<and> addPatient_test a p = Inr False)"
  shows "addPatient_loop p currMeta n newPKey apNum s =
         addPatient_found p currMeta n newPKey (approval_key (patient_medID p) k) apObj s"
  using assms(2,5)
proof (induction "nat (apNum - k)" arbitrary: apNum)
  case 0
  then have "apNum = k" by simp
  with assms(1,3,4) show ?case
    by (simp add: addPatient_loop.simps [of _ _ _ _ k] readAsset_Some)
next
  case (Suc m)
  then have gt: "k < apNum" and m: "m = nat (apNum - 1 - k)" by simp_all
  from Suc.prems gt obtain a
    where a: "s (approval_key (patient_medID p) apNum) = Some a" "addPatient_test a p = Inr False"
    by blast
  from Suc.prems have rest: "\<forall>j. k < j \<and> j \<le> apNum - 1 \<longrightarrow>
      (\<exists>a. s (approval_key (patient_medID p) j) = Some a \<and> addPatient_test a p = Inr False)"
    by simp
  from gt have "k \<le> apNum - 1" by simp
  from Suc.hyps(1) [OF m this rest]
  have "addPatient_loop p currMeta n newPKey (apNum - 1) s =
        addPatient_found p currMeta n newPKey (approval_key (patient_medID p) k) apObj s" .
  with gt assms(1) a show ?case
    by (simp add: addPatient_loop.simps [of _ _ _ _ apNum] readAsset_Some)
qed

lemma addPatient_found_result:
  assumes "s apKey = Some (JObj fs)" and "s ''meta'' = Some (JObj ms)"
    and "s (patient_key (js_add_one n)) = None"
    and "apKey = approval_key medID k"
  shows "addPatient_found p (JObj ms) n (patient_key (js_add_one n)) apKey (JObj fs) s =
         Inr ((), s(apKey \<mapsto> JObj (AList.update ''patientID'' (JStr (patient_key (js_add_one n))) fs),
                   patient_key (js_add_one n) \<mapsto> Patient_json p,
                   ''meta'' \<mapsto> JObj (AList.update ''patientCtr'' (JNum (js_add_one n)) ms)))"
proof -
  have "''meta'' \<noteq> apKey"
    using approval_key_not_meta [of medID "toString k"] assms(4) by simp
  with assms show ?thesis
    by (simp add: addPatient_found_def updateAsset_def createAsset_def assetExists_def)
qed

text \<open>Below \<open>2^53\<close> in magnitude the double sum is the integer sum.\<close>

lemma js_add_one_safe: "\<bar>n\<bar> < 2 ^ 53 \<Longrightarrow> js_add_one n = n + 1"
proof -
  assume "\<bar>n\<bar> < 2 ^ 53"
  then have "- (2 ^ 53) \<le> n \<and> n < 2 ^ 53" by (simp add: abs_less_iff)
  then show ?thesis unfolding js_add_one_def by (rule if_P)
qed

text \<open>At \<open>2^53\<close> the sum rounds back.\<close>

lemma js_add_one_rounds: "js_add_one 9007199254740992 = 9007199254740992"
  by (simp add: js_add_one_def)

lemmas example_defs =
  example_key_def example_patient_def example_approval_def example_officer_def example_meta_def

lemmas eval_defs =
  js_add_one_def toString_def digits.simps digit_char_def readAsset_def assetExists_def
  createAsset_def updateAsset_def addPatient_test_def

text \<open>
  C1 (as amended). A call of \<^verbatim>\<open>addPatient\<close> on a ledger where Meta holds the number
  \<open>n\<close>, below \<open>2^53\<close> in magnitude, as \<^verbatim>\<open>patientCtr\<close>, the officer record read at the
  submitted \<^verbatim>\<open>medID\<close> holds the number \<open>c\<close>, at most \<open>2^53\<close>, as \<^verbatim>\<open>approveCtr\<close>,
  approval number \<open>k\<close> in \<open>1..c\<close> passes the test
  (unredeemed, same token), every approval numbered above \<open>k\<close> up to \<open>c\<close> is stored and
  fails the test, and no record is stored at \<open>"p" + (n + 1)\<close>: the call returns, the
  approval at \<open>k\<close> gets \<^verbatim>\<open>patientID\<close> \<open>"p" + (n + 1)\<close>, the Patient record is created at
  that key with the submitted daily keys, Meta's \<^verbatim>\<open>patientCtr\<close> becomes \<open>n + 1\<close>, and
  no other key changes: the approvals of every other number are as before. Nothing is
  assumed of the approvals numbered below \<open>k\<close>: the scan stops at \<open>k\<close> and does not read
  them. The two bounds keep the counters where a double counts exactly: from \<open>2^53\<close> on
  \<open>n + 1\<close> is no longer the next integer, and above \<open>2^53\<close> a double index does not step
  down by one.
\<close>

theorem addPatient_redeems_most_recent:
  assumes "s ''meta'' = Some currMeta"
    and "get_prop currMeta ''patientCtr'' = Inr (Some (JNum n))"
    and "s (patient_medID p) = Some healthOfficial"
    and "get_prop healthOfficial ''approveCtr'' = Inr (Some (JNum c))"
    and "0 < k" and "k \<le> c"
    and "s (approval_key (patient_medID p) k) = Some apObj"
    and "addPatient_test apObj p = Inr True"
    and "\<forall>j. k < j \<and> j \<le> c \<longrightarrow>
           (\<exists>a. s (approval_key (patient_medID p) j) = Some a \<and> addPatient_test a p = Inr False)"
    and "s (patient_key (n + 1)) = None"
    and "\<bar>n\<bar> < 2 ^ 53" and "c \<le> 2 ^ 53"
  shows "\<exists>apObj' currMeta' s'.
           addPatient p s = Inr ((), s')
         \<and> s' = s(approval_key (patient_medID p) k \<mapsto> apObj',
                  patient_key (n + 1) \<mapsto> Patient_json p,
                  ''meta'' \<mapsto> currMeta')
         \<and> set_prop apObj ''patientID'' (JStr (patient_key (n + 1))) = Inr apObj'
         \<and> get_prop apObj' ''patientID'' = Inr (Some (JStr (patient_key (n + 1))))
         \<and> set_prop currMeta ''patientCtr'' (JNum (n + 1)) = Inr currMeta'
         \<and> get_prop currMeta' ''patientCtr'' = Inr (Some (JNum (n + 1)))
         \<and> s' (approval_key (patient_medID p) k) = Some apObj'
         \<and> s' (patient_key (n + 1)) = Some (Patient_json p)
         \<and> get_prop (Patient_json p) ''dailyKeys'' = Inr (Some (JArr (patient_dailyKeys p)))
         \<and> s' ''meta'' = Some currMeta'
         \<and> (\<forall>j. j \<noteq> k \<longrightarrow>
               s' (approval_key (patient_medID p) j) = s (approval_key (patient_medID p) j))"
proof -
  let ?apKey = "approval_key (patient_medID p) k"
  let ?newPKey = "patient_key (n + 1)"
  from assms(2) obtain ms where ms: "currMeta = JObj ms"
    using get_prop_SomeD by blast
  from assms(8) obtain fs where fs: "apObj = JObj fs"
    using addPatient_test_TrueD by blast
  let ?apObj' = "JObj (AList.update ''patientID'' (JStr ?newPKey) fs)"
  let ?currMeta' = "JObj (AList.update ''patientCtr'' (JNum (n + 1)) ms)"
  let ?s' = "s(?apKey \<mapsto> ?apObj', ?newPKey \<mapsto> Patient_json p, ''meta'' \<mapsto> ?currMeta')"
  have loop: "addPatient_loop p currMeta n ?newPKey c s =
              addPatient_found p currMeta n ?newPKey ?apKey apObj s"
    using assms(5-9) by (rule addPatient_loop_highest)
  have inc: "js_add_one n = n + 1"
    using assms(11) by (rule js_add_one_safe)
  have "addPatient_found p (JObj ms) n (patient_key (js_add_one n)) ?apKey (JObj fs) s
      = Inr ((), s(?apKey \<mapsto> JObj (AList.update ''patientID'' (JStr (patient_key (js_add_one n))) fs),
                   patient_key (js_add_one n) \<mapsto> Patient_json p,
                   ''meta'' \<mapsto> JObj (AList.update ''patientCtr'' (JNum (js_add_one n)) ms)))"
    by (rule addPatient_found_result) (use assms ms fs inc in simp_all)
  then have found: "addPatient_found p currMeta n ?newPKey ?apKey apObj s = Inr ((), ?s')"
    by (simp add: inc ms fs)
  have run: "addPatient p s = Inr ((), ?s')"
    using assms(1-4) loop found by (simp add: addPatient_def readAsset_Some inc)
  have meta_key: "''meta'' \<noteq> ?apKey"
    using approval_key_not_meta [of "patient_medID p" "toString k"] by simp
  have others: "\<forall>j. j \<noteq> k \<longrightarrow>
      ?s' (approval_key (patient_medID p) j) = s (approval_key (patient_medID p) j)"
    using approval_key_not_meta [of "patient_medID p"] by auto
  have "set_prop apObj ''patientID'' (JStr ?newPKey) = Inr ?apObj'"
    and "get_prop ?apObj' ''patientID'' = Inr (Some (JStr ?newPKey))"
    and "set_prop currMeta ''patientCtr'' (JNum (n + 1)) = Inr ?currMeta'"
    and "get_prop ?currMeta' ''patientCtr'' = Inr (Some (JNum (n + 1)))"
    and "?s' ?apKey = Some ?apObj'"
    and "?s' ?newPKey = Some (Patient_json p)"
    and "get_prop (Patient_json p) ''dailyKeys'' = Inr (Some (JArr (patient_dailyKeys p)))"
    and "?s' ''meta'' = Some ?currMeta'"
    using meta_key by (simp_all add: ms fs map_of_update Patient_json_def)
  with run others show ?thesis by blast
qed

text \<open>
  The theorem at a ledger with approvals 1 and 2 for token A1 and approval 3 for another
  token: number 2 is redeemed, number 1 stays unredeemed.
\<close>

theorem addPatient_redeems_most_recent_witness:
  "\<exists>s'. addPatient example_patient ledger_three = Inr ((), s')
      \<and> s' ''mm1:2'' = Some (example_approval ''A1'' (JStr ''p1''))
      \<and> s' ''mm1:1'' = Some (example_approval ''A1'' JNull)
      \<and> s' ''p1'' = Some (Patient_json example_patient)
      \<and> s' ''meta'' = Some (example_meta 1)"
proof -
  have above: "\<forall>j. 2 < j \<and> j \<le> 3 \<longrightarrow>
      (\<exists>a. ledger_three (approval_key (patient_medID example_patient) j) = Some a
          \<and> addPatient_test a example_patient = Inr False)"
  proof (intro allI impI)
    fix j :: int
    assume "2 < j \<and> j \<le> 3"
    then have "j = 3" by simp
    then show "\<exists>a. ledger_three (approval_key (patient_medID example_patient) j) = Some a
          \<and> addPatient_test a example_patient = Inr False"
      by (simp add: ledger_three_def example_defs eval_defs)
  qed
  have "ledger_three ''meta'' = Some (example_meta 0)"
    and "get_prop (example_meta 0) ''patientCtr'' = Inr (Some (JNum 0))"
    and "ledger_three (patient_medID example_patient) = Some (example_officer 3)"
    and "get_prop (example_officer 3) ''approveCtr'' = Inr (Some (JNum 3))"
    and "(0::int) < 2" and "(2::int) \<le> 3"
    and "ledger_three (approval_key (patient_medID example_patient) 2)
           = Some (example_approval ''A1'' JNull)"
    and "addPatient_test (example_approval ''A1'' JNull) example_patient = Inr True"
    and "ledger_three (patient_key (0 + 1)) = None"
    and "\<bar>0 :: int\<bar> < 2 ^ 53" and "(3 :: int) \<le> 2 ^ 53"
    by (simp_all add: ledger_three_def example_defs eval_defs)
  from addPatient_redeems_most_recent [OF this(1-8) above this(9-11)]
  obtain apObj' currMeta' s' where
    "addPatient example_patient ledger_three = Inr ((), s')"
    "set_prop (example_approval ''A1'' JNull) ''patientID'' (JStr (patient_key (0 + 1))) = Inr apObj'"
    "set_prop (example_meta 0) ''patientCtr'' (JNum (0 + 1)) = Inr currMeta'"
    "s' (approval_key (patient_medID example_patient) 2) = Some apObj'"
    "s' (patient_key (0 + 1)) = Some (Patient_json example_patient)"
    "s' ''meta'' = Some currMeta'"
    "\<forall>j. j \<noteq> 2 \<longrightarrow> s' (approval_key (patient_medID example_patient) j)
         = ledger_three (approval_key (patient_medID example_patient) j)"
    by blast
  moreover from this(7) have "s' (approval_key (patient_medID example_patient) 1)
         = ledger_three (approval_key (patient_medID example_patient) 1)"
    by simp
  ultimately show ?thesis
    by (simp add: ledger_three_def example_defs eval_defs)
qed

text \<open>
  C1 as stated fails: with a matching approval at number 1, the call throws when approval
  number 2 of 2 is not stored, and when a record is already stored at the key of the new
  patient; and when Meta's \<^verbatim>\<open>patientCtr\<close> is \<open>2^53\<close>, the call returns with the patient
  stored at \<open>"p" + 2^53\<close> and with \<^verbatim>\<open>patientCtr\<close> still \<open>2^53\<close>.
\<close>

theorem addPatient_redeems_counterexample:
  "ledger_gap ''meta'' = Some (example_meta 0)
   \<and> ledger_gap ''m1'' = Some (example_officer 2)
   \<and> ledger_gap ''mm1:1'' = Some (example_approval ''A1'' JNull)
   \<and> addPatient_test (example_approval ''A1'' JNull) example_patient = Inr True
   \<and> addPatient example_patient ledger_gap = Inl (NotFound ''mm1:2'')
   \<and> ledger_taken ''meta'' = Some (example_meta 0)
   \<and> ledger_taken ''m1'' = Some (example_officer 1)
   \<and> ledger_taken ''mm1:1'' = Some (example_approval ''A1'' JNull)
   \<and> addPatient example_patient ledger_taken = Inl (AlreadyExists ''p1'')
   \<and> ledger_rounding ''meta'' = Some (example_meta 9007199254740992)
   \<and> ledger_rounding ''m1'' = Some (example_officer 1)
   \<and> ledger_rounding ''mm1:1'' = Some (example_approval ''A1'' JNull)
   \<and> addPatient example_patient ledger_rounding
       = Inr ((), ledger_rounding
            (''mm1:1'' \<mapsto> example_approval ''A1'' (JStr ''p9007199254740992''),
             ''p9007199254740992'' \<mapsto> Patient_json example_patient,
             ''meta'' \<mapsto> example_meta 9007199254740992))"
proof -
  have key: "patient_key (js_add_one 9007199254740992) = ''p9007199254740992''"
    unfolding js_add_one_rounds by (simp add: toString_def digits.simps digit_char_def)
  have "addPatient example_patient ledger_rounding
       = Inr ((), ledger_rounding
            (''mm1:1'' \<mapsto> example_approval ''A1'' (JStr ''p9007199254740992''),
             ''p9007199254740992'' \<mapsto> Patient_json example_patient,
             ''meta'' \<mapsto> example_meta 9007199254740992))"
    unfolding addPatient_def
    by (simp add: ledger_rounding_def example_meta_def example_officer_def readAsset_def
        assetExists_def key js_add_one_rounds)
      (simp add: addPatient_loop.simps example_defs addPatient_found_def addPatient_test_def
        readAsset_def assetExists_def updateAsset_def createAsset_def toString_def digits.simps
        digit_char_def js_add_one_rounds)
  then show ?thesis
    by (simp add: ledger_gap_def ledger_taken_def ledger_rounding_def example_defs eval_defs
        addPatient_def addPatient_loop.simps addPatient_found_def)
qed

text \<open>
  C5. When Meta and the officer record are stored, every approval \<open>1..c\<close> of the officer
  is stored and none passes the test (unredeemed, same token), \<^verbatim>\<open>addPatient\<close> returns
  without an error and leaves the whole ledger as it was.
\<close>

theorem addPatient_no_match_noop:
  assumes "s ''meta'' = Some currMeta"
    and "get_prop currMeta ''patientCtr'' = Inr (Some (JNum n))"
    and "s (patient_medID p) = Some healthOfficial"
    and "get_prop healthOfficial ''approveCtr'' = Inr (Some (JNum c))"
    and "\<forall>j. 0 < j \<and> j \<le> c \<longrightarrow>
           (\<exists>a. s (approval_key (patient_medID p) j) = Some a \<and> addPatient_test a p = Inr False)"
  shows "addPatient p s = Inr ((), s)"
  using assms(1-4) addPatient_loop_no_match [OF assms(5)]
  by (simp add: addPatient_def readAsset_Some)

text \<open>
  The theorem at a ledger whose approval 1 has the token and is redeemed and whose
  approval 2 is unredeemed for another token.
\<close>

theorem addPatient_no_match_noop_witness:
  "addPatient example_patient ledger_spent = Inr ((), ledger_spent)"
proof -
  have none: "\<forall>j. 0 < j \<and> j \<le> 2 \<longrightarrow>
      (\<exists>a. ledger_spent (approval_key (patient_medID example_patient) j) = Some a
          \<and> addPatient_test a example_patient = Inr False)"
  proof (intro allI impI)
    fix j :: int
    assume "0 < j \<and> j \<le> 2"
    then have "j = 1 \<or> j = 2" by auto
    then show "\<exists>a. ledger_spent (approval_key (patient_medID example_patient) j) = Some a
          \<and> addPatient_test a example_patient = Inr False"
      by (auto simp: ledger_spent_def example_defs eval_defs)
  qed
  have "ledger_spent ''meta'' = Some (example_meta 1)"
    and "get_prop (example_meta 1) ''patientCtr'' = Inr (Some (JNum 1))"
    and "ledger_spent (patient_medID example_patient) = Some (example_officer 2)"
    and "get_prop (example_officer 2) ''approveCtr'' = Inr (Some (JNum 2))"
    by (simp_all add: ledger_spent_def example_defs)
  then show ?thesis using none by (rule addPatient_no_match_noop)
qed

section \<open>Issuing approvals: addPatientApprovalRecord\<close>

lemma approval_key_not_officer: "''m'' @ medID @ x \<noteq> medID"
proof
  assume "''m'' @ medID @ x = medID"
  then have "length (''m'' @ medID @ x) = length medID" by (rule arg_cong)
  then show False by simp
qed

lemma addPatientApprovalRecord_InrD:
  assumes "s medID = Some official"
    and "addPatientApprovalRecord medID tok s = Inr (u, s1)"
  shows "\<exists>c. get_prop official ''approveCtr'' = Inr (Some (JNum c))
           \<and> s (approval_key medID (js_add_one c)) = None
           \<and> s1 = s(approval_key medID (js_add_one c) \<mapsto>
                      JObj [(''approvalID'', JStr tok), (''patientID'', JNull)])"
proof -
  from assms obtain ctr where ctr: "get_prop official ''approveCtr'' = Inr ctr"
    by (cases "get_prop official ''approveCtr''")
      (simp_all add: addPatientApprovalRecord_def assetExists_def readAsset_def)
  from assms ctr obtain c where c: "js_number ctr = Inr c"
    by (cases "js_number ctr")
      (simp_all add: addPatientApprovalRecord_def assetExists_def readAsset_def)
  then have ctr': "ctr = Some (JNum c)"
    by (cases ctr rule: js_number.cases) simp_all
  with ctr obtain fs where fs: "official = JObj fs"
    using get_prop_SomeD by blast
  from assms ctr c fs
  have "createAsset (approval_key medID (js_add_one c))
          (JObj [(''approvalID'', JStr tok), (''patientID'', JNull)]) s = Inr (u, s1)"
    by (simp add: addPatientApprovalRecord_def assetExists_def readAsset_def)
  then have "s (approval_key medID (js_add_one c)) = None
     \<and> s1 = s(approval_key medID (js_add_one c) \<mapsto>
                JObj [(''approvalID'', JStr tok), (''patientID'', JNull)])"
    by (auto simp: createAsset_def assetExists_def split: if_splits)
  with ctr ctr' show ?thesis by simp
qed

lemma addPatientApprovalRecord_occupied:
  assumes "s medID = Some official"
    and "get_prop official ''approveCtr'' = Inr (Some (JNum c))"
    and "s (approval_key medID (js_add_one c)) = Some a"
  shows "addPatientApprovalRecord medID tok s = Inl (AlreadyExists (approval_key medID (js_add_one c)))"
proof -
  from assms(2) obtain fs where "official = JObj fs"
    using get_prop_SomeD by blast
  with assms show ?thesis
    by (simp add: addPatientApprovalRecord_def assetExists_def readAsset_def createAsset_def)
qed

lemma issueApprovalTokens_occupied:
  assumes "s medID = Some official"
    and "get_prop official ''approveCtr'' = Inr (Some (JNum c))"
    and "s (approval_key medID (js_add_one c)) = Some a"
  shows "issueApprovalTokens medID toks s = s"
  by (induction toks) (simp_all add: addPatientApprovalRecord_occupied [OF assms])

text \<open>
  C10. Once a call of \<^verbatim>\<open>addPatientApprovalRecord\<close> for a stored officer has returned, the
  officer record is as before, and after any number of further calls for that officer the
  ledger is still the same and the next call throws \<^verbatim>\<open>already exists\<close> for the key of
  the approval the first call created: the one numbered by the stored counter plus 1, as
  the code adds it.
\<close>

theorem issue_again_AlreadyExists:
  assumes "s medID = Some official"
    and "addPatientApprovalRecord medID tok s = Inr (u, s1)"
  shows "\<exists>c. get_prop official ''approveCtr'' = Inr (Some (JNum c))
           \<and> s1 medID = Some official
           \<and> issueApprovalTokens medID toks s1 = s1
           \<and> addPatientApprovalRecord medID tok' (issueApprovalTokens medID toks s1)
               = Inl (AlreadyExists (approval_key medID (js_add_one c)))"
proof -
  from addPatientApprovalRecord_InrD [OF assms] obtain c
    where c: "get_prop official ''approveCtr'' = Inr (Some (JNum c))"
      and s1: "s1 = s(approval_key medID (js_add_one c) \<mapsto>
                        JObj [(''approvalID'', JStr tok), (''patientID'', JNull)])"
    by blast
  have officer: "s1 medID = Some official"
    using assms(1) approval_key_not_officer [of medID "'':'' @ toString (js_add_one c)"]
    by (simp add: s1)
  have key: "s1 (approval_key medID (js_add_one c))
               = Some (JObj [(''approvalID'', JStr tok), (''patientID'', JNull)])"
    by (simp add: s1)
  have "issueApprovalTokens medID toks s1 = s1"
    using officer c key by (rule issueApprovalTokens_occupied)
  moreover have "addPatientApprovalRecord medID tok' s1
      = Inl (AlreadyExists (approval_key medID (js_add_one c)))"
    using officer c key by (rule addPatientApprovalRecord_occupied)
  ultimately show ?thesis using c officer by simp
qed

lemmas eval_defs2 = eval_defs addHealthOfficer_def addPatientApprovalRecord_def
  HealthOfficer_json_def ledger_registered_def

text \<open>
  The theorem at the ledger where officer m1 is registered with counter 0: after the first
  approval, two more calls leave the ledger as it is and a third throws for \<open>mm1:1\<close>.
\<close>

theorem issue_again_AlreadyExists_witness:
  "addPatientApprovalRecord ''m1'' ''A1'' ledger_registered = Inr ((), ledger_issued)
   \<and> issueApprovalTokens ''m1'' [''A2'', ''A3''] ledger_issued = ledger_issued
   \<and> addPatientApprovalRecord ''m1'' ''A4''
        (issueApprovalTokens ''m1'' [''A2'', ''A3''] ledger_issued)
      = Inl (AlreadyExists ''mm1:1'')"
proof -
  have reg: "ledger_registered ''m1'' = Some (example_officer 0)"
    by (simp add: eval_defs2 example_defs)
  have first: "addPatientApprovalRecord ''m1'' ''A1'' ledger_registered = Inr ((), ledger_issued)"
    by (simp add: eval_defs2 example_defs ledger_issued_def)
  from issue_again_AlreadyExists [OF reg first, of "[''A2'', ''A3'']" "''A4''"]
  obtain c where c: "get_prop (example_officer 0) ''approveCtr'' = Inr (Some (JNum c))"
    and same: "issueApprovalTokens ''m1'' [''A2'', ''A3''] ledger_issued = ledger_issued"
    and fails: "addPatientApprovalRecord ''m1'' ''A4''
        (issueApprovalTokens ''m1'' [''A2'', ''A3''] ledger_issued)
      = Inl (AlreadyExists (approval_key ''m1'' (js_add_one c)))"
    by blast
  from c have "c = 0" by (simp add: example_defs)
  then have "approval_key ''m1'' (js_add_one c) = ''mm1:1''"
    by (simp add: js_add_one_def toString_def digits.simps digit_char_def)
  with first same fails show ?thesis by simp
qed

text \<open>
  C2 at a concrete ledger: officer m1 registered with counter 0, then two approvals
  issued. The stored counter is still 0, only approval number 1 exists, and the second
  call threw.
\<close>

theorem issue_twice_counter_unchanged:
  "issueApprovalTokens ''m1'' [''A1'', ''A2''] ledger_registered ''m1'' = Some (example_officer 0)
   \<and> issueApprovalTokens ''m1'' [''A1'', ''A2''] ledger_registered ''mm1:1''
       = Some (example_approval ''A1'' JNull)
   \<and> issueApprovalTokens ''m1'' [''A1'', ''A2''] ledger_registered ''mm1:2'' = None
   \<and> addPatientApprovalRecord ''m1'' ''A2'' (issueApprovalTokens ''m1'' [''A1''] ledger_registered)
       = Inl (AlreadyExists ''mm1:1'')"
  by (simp add: eval_defs2 example_defs)

text \<open>
  Register, issue, redeem: the approval is stored at number 1 while the officer's stored
  counter is 0, so the scan of \<^verbatim>\<open>addPatient\<close> from the counter down never reads it and
  the redemption changes nothing.
\<close>

lemma register_issue_redeem_scenario:
  "ledger_scenario ''m1'' = Some (example_officer 0)
   \<and> ledger_scenario ''mm1:1'' = Some (example_approval ''A1'' JNull)
   \<and> addPatient example_patient ledger_scenario = Inr ((), ledger_scenario)"
  by (simp add: ledger_scenario_def ledger_bare_def example_defs eval_defs2 addPatient_def
      addPatient_loop.simps)

section \<open>Registering an officer: addHealthOfficer\<close>

text \<open>
  C7 (as amended). For two payloads with the same \<^verbatim>\<open>medID\<close>, the first call of
  \<^verbatim>\<open>addHealthOfficer\<close> returns and leaves one record at that key: the one already stored
  there, or else the first payload as submitted, whose \<^verbatim>\<open>approveCtr\<close> is the number the
  payload carries. The second call returns and changes nothing.
\<close>

theorem addHealthOfficer_idempotent:
  assumes "officer_medID medObj2 = officer_medID medObj1"
  shows "\<exists>s1. addHealthOfficer medObj1 s = Inr ((), s1)
           \<and> s1 = (case s (officer_medID medObj1) of
                     None \<Rightarrow> s(officer_medID medObj1 \<mapsto> HealthOfficer_json medObj1)
                   | Some stored \<Rightarrow> s)
           \<and> s1 (officer_medID medObj1)
               = Some (case s (officer_medID medObj1) of
                         None \<Rightarrow> HealthOfficer_json medObj1
                       | Some stored \<Rightarrow> stored)
           \<and> get_prop (HealthOfficer_json medObj1) ''approveCtr''
               = Inr (Some (JNum (officer_approveCtr medObj1)))
           \<and> addHealthOfficer medObj2 s1 = Inr ((), s1)"
  using assms
  by (cases "s (officer_medID medObj1)")
    (simp_all add: addHealthOfficer_def assetExists_def createAsset_def HealthOfficer_json_def)

text \<open>The theorem at the empty ledger, for two payloads of officer m1.\<close>

theorem addHealthOfficer_idempotent_witness:
  "addHealthOfficer \<lparr>officer_medID = ''m1'', officer_approveCtr = 0\<rparr> Map.empty
     = Inr ((), [''m1'' \<mapsto> example_officer 0])
   \<and> addHealthOfficer \<lparr>officer_medID = ''m1'', officer_approveCtr = 7\<rparr>
       [''m1'' \<mapsto> example_officer 0]
     = Inr ((), [''m1'' \<mapsto> example_officer 0])"
  using addHealthOfficer_idempotent
    [of "\<lparr>officer_medID = ''m1'', officer_approveCtr = 7\<rparr>"
        "\<lparr>officer_medID = ''m1'', officer_approveCtr = 0\<rparr>" Map.empty]
  by (simp add: HealthOfficer_json_def example_defs)

text \<open>
  C7 as stated fails: a first registration whose payload carries the counter 5 stores a
  record with the counter 5, not 0.
\<close>

theorem addHealthOfficer_counter_counterexample:
  "addHealthOfficer \<lparr>officer_medID = ''m1'', officer_approveCtr = 5\<rparr> Map.empty
     = Inr ((), [''m1'' \<mapsto> example_officer 5])
   \<and> get_prop (example_officer 5) ''approveCtr'' = Inr (Some (JNum 5))
   \<and> get_prop (example_officer 5) ''approveCtr'' \<noteq> Inr (Some (JNum 0))"
  by (simp add: addHealthOfficer_def assetExists_def createAsset_def HealthOfficer_json_def
      example_defs)

section \<open>The key of the officer record\<close>

text \<open>
  C6 (as amended). \<^verbatim>\<open>addHealthOfficer\<close>, \<^verbatim>\<open>addPatientApprovalRecord\<close> and
  \<^verbatim>\<open>addPatient\<close> address the officer record at the \<^verbatim>\<open>medID\<close> they are given, as it
  is: the first creates the record there, the second does nothing when no record is
  there, the third throws \<^verbatim>\<open>does not exist\<close> for that key. \<^verbatim>\<open>validatePatient\<close> and
  \<^verbatim>\<open>getMedProfile\<close> address it at \<open>"m" + medID\<close>: both throw \<^verbatim>\<open>does not exist\<close> for
  that key when no record is there, and \<^verbatim>\<open>getMedProfile\<close> returns the record stored
  there.
\<close>

theorem officer_record_key:
  shows "(s (officer_medID medObj) = None \<longrightarrow>
            addHealthOfficer medObj s
              = Inr ((), s(officer_medID medObj \<mapsto> HealthOfficer_json medObj)))
       \<and> (s medID = None \<longrightarrow> addPatientApprovalRecord medID tok s = Inr ((), s))
       \<and> (s ''meta'' = Some currMeta \<and> get_prop currMeta ''patientCtr'' = Inr (Some (JNum n))
            \<and> s (patient_medID p) = None \<longrightarrow>
            addPatient p s = Inl (NotFound (patient_medID p)))
       \<and> (s (''m'' @ medID) = None \<longrightarrow>
            validatePatient medID checkID s = Inl (NotFound (''m'' @ medID)))
       \<and> (s (''m'' @ medID) = None \<longrightarrow>
            getMedProfile medID s = Inl (NotFound (''m'' @ medID)))
       \<and> (s (''m'' @ medID) = Some medObj' \<longrightarrow> getMedProfile medID s = Inr (medObj', s))"
  by (simp add: addHealthOfficer_def addPatientApprovalRecord_def addPatient_def
      validatePatient_def getMedProfile_def assetExists_def createAsset_def readAsset_def)

text \<open>The theorem at a ledger that holds Meta only, and with officer m1 added.\<close>

theorem officer_record_key_witness:
  "addHealthOfficer \<lparr>officer_medID = ''m1'', officer_approveCtr = 0\<rparr> ledger_bare
     = Inr ((), ledger_bare(''m1'' \<mapsto> example_officer 0))
   \<and> addPatientApprovalRecord ''m1'' ''A1'' ledger_bare = Inr ((), ledger_bare)
   \<and> addPatient example_patient ledger_bare = Inl (NotFound ''m1'')
   \<and> validatePatient ''1'' ''A1'' ledger_bare = Inl (NotFound ''m1'')
   \<and> getMedProfile ''1'' ledger_bare = Inl (NotFound ''m1'')
   \<and> getMedProfile ''1'' (ledger_bare(''m1'' \<mapsto> example_officer 0))
       = Inr (example_officer 0, ledger_bare(''m1'' \<mapsto> example_officer 0))"
  using officer_record_key
    [where s = ledger_bare and medObj = "\<lparr>officer_medID = ''m1'', officer_approveCtr = 0\<rparr>"
       and medID = "''m1''" and tok = "''A1''" and currMeta = "example_meta 0" and n = 0
       and p = example_patient]
    officer_record_key
    [where s = ledger_bare and medID = "''1''" and checkID = "''A1''"]
    officer_record_key
    [where s = "ledger_bare(''m1'' \<mapsto> example_officer 0)" and medID = "''1''"
       and medObj' = "example_officer 0"]
  by (simp add: ledger_bare_def example_defs HealthOfficer_json_def)

text \<open>
  C6 as stated fails: officer 1 registered under the identity \<open>1\<close> is stored at key
  \<open>1\<close>, nothing is stored at \<open>m1\<close>, and \<^verbatim>\<open>getMedProfile\<close> and \<^verbatim>\<open>validatePatient\<close>
  for identity \<open>1\<close> look at \<open>m1\<close>, while \<^verbatim>\<open>addPatientApprovalRecord\<close> for identity
  \<open>1\<close> finds the record.
\<close>

theorem officer_record_key_counterexample:
  "addHealthOfficer \<lparr>officer_medID = ''1'', officer_approveCtr = 0\<rparr> Map.empty
     = Inr ((), ledger_unprefixed)
   \<and> ledger_unprefixed ''m1'' = None
   \<and> getMedProfile ''1'' ledger_unprefixed = Inl (NotFound ''m1'')
   \<and> validatePatient ''1'' ''A1'' ledger_unprefixed = Inl (NotFound ''m1'')
   \<and> addPatientApprovalRecord ''1'' ''A1'' ledger_unprefixed
       = Inr ((), ledger_unprefixed(''m1:1'' \<mapsto> example_approval ''A1'' JNull))"
  by (simp add: ledger_unprefixed_def eval_defs2 example_defs getMedProfile_def
      validatePatient_def validatePatient_loop.simps)

section \<open>Validating a token: validatePatient\<close>

text \<open>
  C3 at a concrete ledger: officer 1 is stored at \<open>m1\<close> with \<^verbatim>\<open>approveCtr\<close> 1, and its
  approval number 1 at \<open>m1:1\<close> is unredeemed for token A1 and passes the test of the
  loop. \<^verbatim>\<open>validatePatient\<close> reads \<^verbatim>\<open>approvalCtr\<close>, which the record does not have, runs
  no iteration and throws \<^verbatim>\<open>ApprovalID A1 is invalid\<close>.
\<close>

theorem validatePatient_rejects_unredeemed_token:
  "ledger_validate ''m1'' = Some (example_officer 1)
   \<and> get_prop (example_officer 1) ''approveCtr'' = Inr (Some (JNum 1))
   \<and> ledger_validate ''m1:1'' = Some (example_approval ''A1'' JNull)
   \<and> validatePatient_test (example_approval ''A1'' JNull) ''A1'' = Inr True
   \<and> validatePatient ''1'' ''A1'' ledger_validate = Inl (InvalidToken ''A1'')"
  by (simp add: ledger_validate_def example_defs validatePatient_def validatePatient_test_def
      validatePatient_loop.simps readAsset_def assetExists_def)

text \<open>
  C8 at a concrete ledger: with no officer record stored, \<^verbatim>\<open>validatePatient\<close> throws the
  \<^verbatim>\<open>does not exist\<close> of \<^verbatim>\<open>readAsset\<close>, not \<^verbatim>\<open>MedicalID 1 is invalid\<close>.
\<close>

theorem validatePatient_absent_officer_NotFound:
  "validatePatient ''1'' ''A1'' Map.empty = Inl (NotFound ''m1'')
   \<and> validatePatient ''1'' ''A1'' Map.empty \<noteq> Inl (InvalidOfficer ''1'')"
  by (simp add: validatePatient_def readAsset_def assetExists_def)

text \<open>
  The same for every ledger: whatever approvals are stored, \<^verbatim>\<open>validatePatient\<close> throws
  \<^verbatim>\<open>ApprovalID ... is invalid\<close> for an officer record as \<^verbatim>\<open>addHealthOfficer\<close> writes it,
  and \<^verbatim>\<open>MedicalID ... is invalid\<close> only for a stored \<^verbatim>\<open>null\<close>. On a record that
  carries \<^verbatim>\<open>approvalCtr\<close> the loop runs and accepts the token.
\<close>

lemma validatePatient_officer_record_InvalidToken:
  assumes "s (''m'' @ medID) = Some (HealthOfficer_json medObj)"
  shows "validatePatient medID checkID s = Inl (InvalidToken checkID)"
  using assms
  by (simp add: validatePatient_def readAsset_Some HealthOfficer_json_def
      validatePatient_loop.simps)

lemma validatePatient_null_officer:
  assumes "s (''m'' @ medID) = Some JNull"
  shows "validatePatient medID checkID s = Inl (InvalidOfficer medID)"
  using assms by (simp add: validatePatient_def readAsset_Some)

lemma validatePatient_accepts_with_approvalCtr:
  "validatePatient ''1'' ''A1'' ledger_approvalCtr
     = Inr (''Validate Patient Successful'', ledger_approvalCtr)"
  by (simp add: ledger_approvalCtr_def example_defs validatePatient_def validatePatient_test_def
      validatePatient_loop.simps eval_defs)

text \<open>
  The approval keys differ as well: for the officer stored at \<open>m1\<close>,
  \<^verbatim>\<open>addPatientApprovalRecord\<close> writes approval 1 at \<open>mm1:1\<close>, and \<^verbatim>\<open>validatePatient\<close>,
  on a record whose \<^verbatim>\<open>approvalCtr\<close> lets the loop run, looks for it at \<open>m1:1\<close>.
\<close>

lemma validatePatient_misses_issued_approval:
  "addPatientApprovalRecord ''m1'' ''A1'' ledger_both_counters
     = Inr ((), ledger_both_counters(''mm1:1'' \<mapsto> example_approval ''A1'' JNull))
   \<and> validatePatient ''1'' ''A1''
         (ledger_both_counters(''mm1:1'' \<mapsto> example_approval ''A1'' JNull))
     = Inl (NotFound ''m1:1'')"
  by (simp add: ledger_both_counters_def example_defs eval_defs addPatientApprovalRecord_def
      validatePatient_def validatePatient_loop.simps)

text \<open>\<^verbatim>\<open>validatePatient\<close> writes nothing: when it returns, the ledger is as before.\<close>

lemma validatePatient_loop_read_only:
  assumes "validatePatient_loop medKey checkID n i s = Inr (r, s')"
  shows "s' = s \<and> r = ''Validate Patient Successful''"
  using assms
proof (induction "nat (n + 1 - i)" arbitrary: i)
  case 0
  then show ?case by (simp add: validatePatient_loop.simps [of _ _ n i])
next
  case (Suc m)
  then have le: "i \<le> n" and m: "m = nat (n + 1 - (i + 1))" by simp_all
  show ?case
  proof (cases "s (medKey @ '':'' @ toString i)")
    case None
    with Suc.prems le show ?thesis
      by (simp add: validatePatient_loop.simps [of _ _ n i] readAsset_None)
  next
    case (Some approvalObj)
    show ?thesis
    proof (cases "validatePatient_test approvalObj checkID")
      case (Inl e)
      with Suc.prems le Some show ?thesis
        by (simp add: validatePatient_loop.simps [of _ _ n i] readAsset_Some)
    next
      case (Inr valid)
      show ?thesis
      proof (cases valid)
        case True
        with Suc.prems le Some Inr show ?thesis
          by (simp add: validatePatient_loop.simps [of _ _ n i] readAsset_Some)
      next
        case False
        with Suc.prems le Some Inr
        have "validatePatient_loop medKey checkID n (i + 1) s = Inr (r, s')"
          by (simp add: validatePatient_loop.simps [of _ _ n i] readAsset_Some)
        from Suc.hyps(1) [OF m this] show ?thesis .
      qed
    qed
  qed
qed

lemma validatePatient_read_only:
  assumes "validatePatient medID checkID s = Inr (r, s')"
  shows "s' = s \<and> r = ''Validate Patient Successful''"
proof -
  from assms obtain medObj where medObj: "s (''m'' @ medID) = Some medObj"
    by (cases "s (''m'' @ medID)") (simp_all add: validatePatient_def readAsset_None)
  with assms have nn: "medObj \<noteq> JNull"
    by (auto simp: validatePatient_def readAsset_Some)
  from assms medObj nn obtain bound where bound: "get_prop medObj ''approvalCtr'' = Inr bound"
    by (cases "get_prop medObj ''approvalCtr''") (simp_all add: validatePatient_def readAsset_Some)
  from assms medObj nn bound obtain n where n: "loop_limit bound = Inr n"
    by (cases "loop_limit bound") (simp_all add: validatePatient_def readAsset_Some)
  from assms medObj nn bound n
  have "validatePatient_loop (''m'' @ medID) checkID n 1 s = Inr (r, s')"
    by (simp add: validatePatient_def readAsset_Some)
  then show ?thesis by (rule validatePatient_loop_read_only)
qed

section \<open>Fetching an officer: getMedProfile\<close>

text \<open>
  C9 at a concrete ledger: with no officer record stored, \<^verbatim>\<open>getMedProfile\<close> throws the
  \<^verbatim>\<open>does not exist\<close> of \<^verbatim>\<open>readAsset\<close>; it does not return \<^verbatim>\<open>null\<close>.
\<close>

theorem getMedProfile_absent_officer_NotFound:
  "getMedProfile ''1'' Map.empty = Inl (NotFound ''m1'')"
  by (simp add: getMedProfile_def readAsset_def assetExists_def)

text \<open>When \<^verbatim>\<open>getMedProfile\<close> returns, it returns the stored record and the ledger is as before.\<close>

lemma getMedProfile_read_only:
  assumes "getMedProfile medID s = Inr (r, s')"
  shows "s' = s \<and> s (''m'' @ medID) = Some r"
  using assms
  by (cases "s (''m'' @ medID)")
    (auto simp: getMedProfile_def readAsset_None readAsset_Some split: if_splits)

section \<open>Aggregating the keys: getKeys\<close>

lemma get_prop_not_null: "v \<noteq> JNull \<Longrightarrow> \<exists>x. get_prop v f = Inr x"
  by (cases v) simp_all

lemma getKeys_loop_result:
  assumes "getKeys_loop n i acc s = Inr (res, s')"
  shows "s' = s \<and> res = acc @ concat (map (pushed_entry s) [i..n])
         \<and> (\<forall>j\<in>{i..n}. s (patient_key j) \<noteq> None)"
  using assms
proof (induction "nat (n + 1 - i)" arbitrary: i acc)
  case 0
  then have "\<not> i \<le> n" by simp
  with "0.prems" show ?case by (simp add: getKeys_loop.simps [of n i])
next
  case (Suc m)
  then have le: "i \<le> n" and m: "m = nat (n + 1 - (i + 1))" by simp_all
  have upto: "[i..n] = i # [i + 1..n]"
    using le by (rule upto_rec1)
  have range: "{i..n} = insert i {i + 1..n}"
    using le by auto
  show ?case
  proof (cases "s (patient_key i)")
    case None
    with Suc.prems le show ?thesis
      by (simp add: getKeys_loop.simps [of n i] readAsset_None)
  next
    case (Some patientObj)
    show ?thesis
    proof (cases "patientObj = JNull")
      case True
      with Suc.prems le Some
      have "getKeys_loop n (i + 1) acc s = Inr (res, s')"
        by (simp add: getKeys_loop.simps [of n i] readAsset_Some)
      from Suc.hyps(1) [OF m this] Some True show ?thesis
        by (simp add: upto range pushed_entry_def)
    next
      case False
      then obtain keys where keys: "get_prop patientObj ''dailyKeys'' = Inr keys"
        using get_prop_not_null by blast
      with Suc.prems le Some False
      have "getKeys_loop n (i + 1) (acc @ [keys]) s = Inr (res, s')"
        by (simp add: getKeys_loop.simps [of n i] readAsset_Some)
      from Suc.hyps(1) [OF m this] Some False keys show ?thesis
        by (simp add: upto range pushed_entry_def)
    qed
  qed
qed

text \<open>On a Meta record without \<^verbatim>\<open>num_positives\<close> the loop runs no iteration.\<close>

lemma getKeys_without_num_positives:
  assumes "s ''meta'' = Some (JObj ms)" and "map_of ms ''num_positives'' = None"
  shows "getKeys s = Inr (JArr [], s)"
  using assms
  by (simp add: getKeys_def readAsset_Some getKeys_loop.simps stringify_array_def)

text \<open>
  When \<^verbatim>\<open>getKeys\<close> returns, the ledger is as before, and the array returned holds, in
  patient-number order, what the records of patients \<open>1..n\<close> contribute, where \<open>n\<close> is
  the loop bound read from \<^verbatim>\<open>num_positives\<close>: for each patient the value of its
  \<^verbatim>\<open>dailyKeys\<close> as one entry of its own.
\<close>

lemma getKeys_returns:
  assumes "getKeys s = Inr (r, s')"
  shows "s' = s
       \<and> (\<exists>metaObj bound n.
              s ''meta'' = Some metaObj
            \<and> get_prop metaObj ''num_positives'' = Inr bound
            \<and> loop_limit bound = Inr n
            \<and> r = stringify_array (concat (map (pushed_entry s) [1..n]))
            \<and> (\<forall>j\<in>{1..n}. s (patient_key j) \<noteq> None))"
proof -
  from assms obtain metaObj where stored: "s ''meta'' = Some metaObj"
    by (cases "s ''meta''") (simp_all add: getKeys_def readAsset_None)
  then have meta: "readAsset ''meta'' s = Inr (metaObj, s)"
    by (rule readAsset_Some)
  from assms meta obtain bound where bound: "get_prop metaObj ''num_positives'' = Inr bound"
    by (cases "get_prop metaObj ''num_positives''") (simp_all add: getKeys_def)
  from assms meta bound obtain n where n: "loop_limit bound = Inr n"
    by (cases "loop_limit bound") (simp_all add: getKeys_def)
  from assms meta bound n obtain allResults s2
    where loop: "getKeys_loop n 1 [] s = Inr (allResults, s2)"
    by (cases "getKeys_loop n 1 [] s") (auto simp: getKeys_def)
  from assms meta bound n loop have r: "r = stringify_array allResults" and "s' = s2"
    by (simp_all add: getKeys_def)
  with getKeys_loop_result [OF loop] stored bound n show ?thesis by auto
qed

text \<open>
  C4 at a concrete ledger: Meta counts one patient in \<^verbatim>\<open>patientCtr\<close>, as \<^verbatim>\<open>addPatient\<close>
  leaves it after one redemption, and patient 1 is stored with one daily key.
  \<^verbatim>\<open>getKeys\<close> reads the loop bound from \<^verbatim>\<open>num_positives\<close>, which Meta does not have,
  runs no iteration and returns the empty array, where the concatenation over patients
  \<open>1..patientCounter\<close> holds that key.
\<close>

theorem getKeys_misses_counted_patient:
  "ledger_counted ''meta'' = Some (example_meta 1)
   \<and> get_prop (example_meta 1) ''patientCtr'' = Inr (Some (JNum 1))
   \<and> get_prop (example_meta 1) ''num_positives'' = Inr None
   \<and> ledger_counted ''p1'' = Some (Patient_json example_patient)
   \<and> spec_aggregateKeys ledger_counted = JArr [example_key]
   \<and> getKeys ledger_counted = Inr (JArr [], ledger_counted)"
proof -
  have upto1: "[1..1::int] = [1]"
    by (simp add: upto.simps)
  have "spec_aggregateKeys ledger_counted = JArr [example_key]"
    by (simp add: spec_aggregateKeys_def ledger_counted_def example_meta_def upto1)
      (simp add: Patient_json_def example_patient_def eval_defs)
  moreover have "getKeys ledger_counted = Inr (JArr [], ledger_counted)"
    by (simp add: getKeys_def ledger_counted_def example_meta_def readAsset_def assetExists_def
        getKeys_loop.simps stringify_array_def)
  ultimately show ?thesis
    by (simp add: ledger_counted_def example_meta_def)
qed

text \<open>
  By design the entries are nested: on a ledger whose Meta also carries
  \<^verbatim>\<open>num_positives\<close> the loop runs, and the result holds one array per patient where the
  concatenation holds the three keys.
\<close>

lemma getKeys_nests_per_patient:
  "getKeys ledger_keys
     = Inr (JArr [JArr [example_key], JArr [example_key2, example_key3]], ledger_keys)
   \<and> spec_aggregateKeys ledger_keys = JArr [example_key, example_key2, example_key3]"
proof -
  have upto2: "[1..2::int] = [1, 2]"
    by (simp add: upto.simps)
  have "spec_aggregateKeys ledger_keys = JArr [example_key, example_key2, example_key3]"
    by (simp add: spec_aggregateKeys_def ledger_keys_def upto2)
      (simp add: Patient_json_def example_patient_def eval_defs)
  moreover have "getKeys ledger_keys
       = Inr (JArr [JArr [example_key], JArr [example_key2, example_key3]], ledger_keys)"
    by (simp add: getKeys_def getKeys_loop.simps ledger_keys_def Patient_json_def
        example_defs eval_defs stringify_array_def)
  ultimately show ?thesis by simp
qed

end
